theory Spec2Isabelle
  imports Main "HOL-Library.List_Lexorder" "HOL-Library.AList"
begin

section \<open>Strings and the manifest tree\<close>

text \<open>
  A Python \<open>str\<close> is a sequence of Unicode code points, compared lexicographically by
  code point. It is modelled as a list of naturals; the order on lists is the
  lexicographic one. \<open>str\<close> turns an ASCII literal of the source into such a string.
\<close>

type_synonym pystr = "nat list"

definition str :: "string \<Rightarrow> pystr" where
  "str s = map of_char s"

text \<open>Raw file contents and file-system paths are opaque to the analysis.\<close>

type_synonym bytes = "nat list"
type_synonym path = string

text \<open>
  \<open>str.strip()\<close> without argument removes leading and trailing whitespace, that is the
  code points for which \<open>str.isspace\<close> holds.
\<close>

definition py_isspace :: "nat \<Rightarrow> bool" where
  "py_isspace c \<longleftrightarrow>
     (9 \<le> c \<and> c \<le> 13) \<or> (28 \<le> c \<and> c \<le> 32) \<or> c = 133 \<or> c = 160 \<or> c = 5760 \<or>
     (8192 \<le> c \<and> c \<le> 8202) \<or> c = 8232 \<or> c = 8233 \<or> c = 8239 \<or> c = 8287 \<or> c = 12288"

definition strip :: "pystr \<Rightarrow> pystr" where
  "strip s = rev (dropWhile py_isspace (rev (dropWhile py_isspace s)))"

text \<open>
  An lxml element: its tag, its attributes under their qualified names
  (\<open>{namespace}local\<close>), and its child elements in document order. Comments and
  processing instructions have no string tag, are never matched by \<open>findall\<close> and are
  left out.
\<close>

datatype element = Element (tag: pystr) (attrib: "(pystr \<times> pystr) list") (children: "element list")

text \<open>\<open>root.findall(tag)\<close> with a plain tag name: the direct children with that tag.\<close>

definition findall :: "element \<Rightarrow> pystr \<Rightarrow> element list" where
  "findall root t = filter (\<lambda>el. tag el = t) (children root)"

text \<open>\<open>el.get(key)\<close>: the attribute's value, \<open>None\<close> when the attribute is missing.\<close>

definition el_get :: "element \<Rightarrow> pystr \<Rightarrow> pystr option" where
  "el_get el key = map_of (attrib el) key"

definition android_name :: pystr where
  "android_name = str ''{http://schemas.android.com/apk/res/android}name''"

definition permission_tags :: "pystr list" where
  "permission_tags = [str ''uses-permission'', str ''uses-permission-sdk-23'']"

section \<open>The permission catalog\<close>

definition PERMISSION_CATEGORIES :: "(pystr \<times> pystr \<times> pystr) list" where
  "PERMISSION_CATEGORIES =
    [(str ''android.permission.INTERNET'', str ''normal'', str ''NETWORK''),
     (str ''android.permission.ACCESS_NETWORK_STATE'', str ''normal'', str ''NETWORK''),
     (str ''android.permission.ACCESS_FINE_LOCATION'', str ''dangerous'', str ''LOCATION''),
     (str ''android.permission.ACCESS_COARSE_LOCATION'', str ''dangerous'', str ''LOCATION''),
     (str ''android.permission.READ_CONTACTS'', str ''dangerous'', str ''CONTACTS''),
     (str ''android.permission.WRITE_CONTACTS'', str ''dangerous'', str ''CONTACTS''),
     (str ''android.permission.RECORD_AUDIO'', str ''dangerous'', str ''MICROPHONE''),
     (str ''android.permission.CAMERA'', str ''dangerous'', str ''CAMERA''),
     (str ''android.permission.READ_SMS'', str ''dangerous'', str ''SMS''),
     (str ''android.permission.SEND_SMS'', str ''dangerous'', str ''SMS''),
     (str ''android.permission.RECEIVE_SMS'', str ''dangerous'', str ''SMS''),
     (str ''android.permission.READ_EXTERNAL_STORAGE'', str ''dangerous'', str ''STORAGE''),
     (str ''android.permission.WRITE_EXTERNAL_STORAGE'', str ''dangerous'', str ''STORAGE''),
     (str ''android.permission.POST_NOTIFICATIONS'', str ''dangerous'', str ''NOTIFICATIONS''),
     (str ''android.permission.INSTALL_PACKAGES'', str ''signature'', str ''SYSTEM''),
     (str ''android.permission.READ_LOGS'', str ''signature'', str ''SYSTEM'')]"

section \<open>Extraction and classification\<close>

text \<open>
  The inner loop of \<open>extract_permissions\<close>: \<open>if name:\<close> is false for a missing attribute
  (\<open>None\<close>) and for an empty value; otherwise the stripped value is appended.
\<close>

fun collect_names :: "element list \<Rightarrow> pystr list \<Rightarrow> pystr list" where
  "collect_names [] perms = perms"
| "collect_names (el # els) perms =
     (case el_get el android_name of
        None \<Rightarrow> collect_names els perms
      | Some name \<Rightarrow>
          if name \<noteq> [] then collect_names els (perms @ [strip name])
          else collect_names els perms)"

text \<open>The outer loop, over the two tags.\<close>

fun collect_tags :: "element \<Rightarrow> pystr list \<Rightarrow> pystr list \<Rightarrow> pystr list" where
  "collect_tags root [] perms = perms"
| "collect_tags root (t # ts) perms = collect_tags root ts (collect_names (findall root t) perms)"

text \<open>\<open>sorted(set(perms))\<close> is the sorted list of the set of the collected names.\<close>

definition extract_permissions :: "element option \<Rightarrow> pystr list" where
  "extract_permissions manifest_root =
     (case manifest_root of
        None \<Rightarrow> []
      | Some root \<Rightarrow> sorted_list_of_set (set (collect_tags root permission_tags [])))"

text \<open>The dictionary returned by \<open>classify_permission\<close>, with its four keys.\<close>

record permission =
  name :: pystr
  category :: pystr
  group_field :: "pystr option"
  sensitive :: bool

definition classify_permission :: "pystr \<Rightarrow> permission" where
  "classify_permission n =
     (let (cat, grp) =
            (case map_of PERMISSION_CATEGORIES n of
               Some (c, g) \<Rightarrow> (c, Some g)
             | None \<Rightarrow> (str ''unknown'', None));
          sens = (cat = str ''dangerous'' \<or> cat = str ''signature'')
      in \<lparr>name = n, category = cat, group_field = grp, sensitive = sens\<rparr>)"

section \<open>The differ\<close>

datatype py_exception =
  KeyError pystr | FileNotFoundError path | BadZipFile | XMLSyntaxError | ValueError
  | OSError | MarkupError

record diff_result =
  added :: "pystr list"
  removed :: "pystr list"
  newDangerous :: "pystr list"

text \<open>
  \<open>{p["name"]: p for p in ps}\<close>: a Python dictionary keeps its keys in the order of
  their first insertion, and a later value for the same key replaces the earlier one in
  place. \<open>AList.update\<close> does exactly this on an association list.
\<close>

definition dict_of :: "permission list \<Rightarrow> (pystr \<times> permission) list" where
  "dict_of ps = fold (\<lambda>p d. AList.update (name p) p d) ps []"

text \<open>
  \<open>[n for n in added if new_names[n]["category"] == "dangerous"]\<close>: the subscript
  raises \<open>KeyError\<close> for a key that is not in the dictionary.
\<close>

fun new_dangerous_of :: "pystr list \<Rightarrow> (pystr \<times> permission) list \<Rightarrow> py_exception + pystr list" where
  "new_dangerous_of [] new_names = Inr []"
| "new_dangerous_of (n # ns) new_names =
     (case map_of new_names n of
        None \<Rightarrow> Inl (KeyError n)
      | Some p \<Rightarrow>
          (case new_dangerous_of ns new_names of
             Inl e \<Rightarrow> Inl e
           | Inr rest \<Rightarrow> Inr (if category p = str ''dangerous'' then n # rest else rest)))"

definition diff_permissions :: "permission list \<Rightarrow> permission list \<Rightarrow> py_exception + diff_result" where
  "diff_permissions old new =
     (let old_names = dict_of old;
          new_names = dict_of new;
          added_l = filter (\<lambda>n. map_of old_names n = None) (map fst new_names);
          removed_l = filter (\<lambda>n. map_of new_names n = None) (map fst old_names)
      in case new_dangerous_of added_l new_names of
           Inl e \<Rightarrow> Inl e
         | Inr new_dangerous \<Rightarrow>
             Inr \<lparr>added = added_l, removed = removed_l, newDangerous = new_dangerous\<rparr>)"

section \<open>The environment and the effects of a run\<close>

record report =
  permissions :: "permission list"
  diff :: "diff_result option"

text \<open>
  What the program prints, one constructor for each \<open>console.print\<close> of the source,
  with the values the source interpolates into the printed text.
\<close>

datatype message =
    ApkNotFound path
  | ExtractionFailed py_exception
  | ParseFailed py_exception
  | SourceMissing
  | PermissionTable "permission list" string
  | CompareHeader
  | AddedLine "pystr list"
  | RemovedLine "pystr list"
  | NewDangerousLine "pystr list"
  | NewDangerousFound
  | JsonSaved path
  | JsonWriteFailed py_exception

datatype effect = Print message | WriteJson path report

text \<open>
  The file system and the libraries the program calls. Each call either raises or
  returns; the exceptions are subclasses of \<open>Exception\<close>.
  \<^item> \<open>path_exists\<close> is \<open>Path.exists\<close>;
  \<^item> \<open>zip_read p\<close> opens the archive \<open>p\<close> and reads its entry \<open>AndroidManifest.xml\<close>;
  \<^item> \<open>read_bytes\<close> is \<open>Path.read_bytes\<close>;
  \<^item> \<open>apkutils2\<close> is \<open>None\<close> when the import failed, and otherwise holds
    \<open>apkutils2.APK.load_manifest_xml\<close>;
  \<^item> \<open>fromstring\<close> is \<open>lxml.etree.fromstring\<close>;
  \<^item> \<open>json_write p r\<close> opens \<open>p\<close> for writing and dumps \<open>r\<close>: \<open>None\<close> on success,
    the exception raised otherwise;
  \<^item> \<open>console m\<close> is rich's \<open>console.print\<close> on the text the source builds for the
    message \<open>m\<close>: \<open>None\<close> when it prints, the exception raised otherwise. The source
    puts paths, exception texts and permission names into rich markup as they are, and
    rich raises \<open>MarkupError\<close> for a closing tag that no tag opens.
  The two parsers are applied to an \<open>Optional[bytes]\<close>, since the program hands them
  \<open>None\<close> after a failed archive read.
\<close>

record env =
  path_exists :: "path \<Rightarrow> bool"
  zip_read :: "path \<Rightarrow> py_exception + bytes"
  read_bytes :: "path \<Rightarrow> py_exception + bytes"
  apkutils2 :: "(bytes option \<Rightarrow> py_exception + bytes) option"
  fromstring :: "bytes option \<Rightarrow> py_exception + element"
  json_write :: "path \<Rightarrow> report \<Rightarrow> py_exception option"
  console :: "message \<Rightarrow> py_exception option"

text \<open>
  How a run ends: \<open>typer.Exit\<close> with a code, or an exception that nothing catches.
  A step of the run has its effects and then either ends the run or returns a value.
\<close>

datatype outcome = Exit int | Uncaught py_exception

type_synonym 'a step = "effect list \<times> (outcome + 'a)"

definition ret :: "'a \<Rightarrow> 'a step" where
  "ret x = ([], Inr x)"

definition and_then :: "'a step \<Rightarrow> ('a \<Rightarrow> 'b step) \<Rightarrow> 'b step" where
  "and_then m f =
     (case m of
        (es, Inl out) \<Rightarrow> (es, Inl out)
      | (es, Inr x) \<Rightarrow> (case f x of (es2, r) \<Rightarrow> (es @ es2, r)))"

text \<open>A \<open>console.print\<close> outside any \<open>try\<close> block, or inside an exception handler.\<close>

definition console_print :: "env \<Rightarrow> message \<Rightarrow> unit step" where
  "console_print env m =
     (case console env m of
        None \<Rightarrow> ([Print m], Inr ())
      | Some e \<Rightarrow> ([], Inl (Uncaught e)))"

definition load_manifest_from_apk :: "env \<Rightarrow> path \<Rightarrow> bytes option step" where
  "load_manifest_from_apk env apk_path =
     (if \<not> path_exists env apk_path then
        and_then (console_print env (ApkNotFound apk_path)) (\<lambda>_. ret None)
      else case zip_read env apk_path of
             Inl e \<Rightarrow> and_then (console_print env (ExtractionFailed e)) (\<lambda>_. ret None)
           | Inr data \<Rightarrow> ret (Some data))"

text \<open>The handler of \<open>parse_manifest\<close>, lines 80 to 82.\<close>

definition parse_manifest_except :: "env \<Rightarrow> py_exception \<Rightarrow> element option step" where
  "parse_manifest_except env e = and_then (console_print env (ParseFailed e)) (\<lambda>_. ret None)"

definition parse_manifest :: "env \<Rightarrow> bytes option \<Rightarrow> element option step" where
  "parse_manifest env data =
     (case apkutils2 env of
        Some load_manifest_xml \<Rightarrow>
          (case load_manifest_xml data of
             Inl e \<Rightarrow> parse_manifest_except env e
           | Inr xml \<Rightarrow>
               (case fromstring env (Some xml) of
                  Inl e \<Rightarrow> parse_manifest_except env e
                | Inr root \<Rightarrow> ret (Some root)))
      | None \<Rightarrow>
          (case fromstring env data of
             Inl e \<Rightarrow> parse_manifest_except env e
           | Inr root \<Rightarrow> ret (Some root)))"

definition print_table :: "env \<Rightarrow> permission list \<Rightarrow> string \<Rightarrow> unit step" where
  "print_table env perms title = console_print env (PermissionTable perms title)"

text \<open>
  \<open>export_json\<close>. The print of line 150 is inside the \<open>try\<close> block, so an exception it
  raises goes to the handler; the print of line 152 is in the handler, so an exception
  it raises leaves the function. A file counts as written only when opening and dumping
  both succeeded.
\<close>

definition export_json :: "env \<Rightarrow> report \<Rightarrow> path \<Rightarrow> unit step" where
  "export_json env data p =
     (case json_write env p data of
        Some e \<Rightarrow> console_print env (JsonWriteFailed e)
      | None \<Rightarrow>
          (case console env (JsonSaved p) of
             None \<Rightarrow> ([WriteJson p data, Print (JsonSaved p)], Inr ())
           | Some e \<Rightarrow>
               and_then ([WriteJson p data], Inr ()) (\<lambda>_. console_print env (JsonWriteFailed e))))"

section \<open>The command\<close>

text \<open>
  The options of \<open>analyze\<close>. A \<open>Path\<close> is always true in a condition, so \<open>if apk:\<close>
  tests for \<open>None\<close>; \<open>if only:\<close> is also false for the empty list. \<open>no_color\<close> only
  changes the colours of the console.
\<close>

record args =
  apk :: "path option"
  manifest :: "path option"
  compare_apk :: "path option"
  compare_manifest :: "path option"
  output_path :: "path option"
  only :: "pystr list option"
  fail_on_new_dangerous :: bool
  no_color :: bool

record run =
  effects :: "effect list"
  outcome :: outcome

text \<open>A step followed by the rest of the run.\<close>

definition run_of :: "'a step \<Rightarrow> ('a \<Rightarrow> run) \<Rightarrow> run" where
  "run_of m f =
     (case m of
        (es, Inl out) \<Rightarrow> \<lparr>effects = es, outcome = out\<rparr>
      | (es, Inr x) \<Rightarrow> \<lparr>effects = es @ effects (f x), outcome = outcome (f x)\<rparr>)"

text \<open>Lines 174 to 181: the bytes of the base manifest.\<close>

definition load_base :: "env \<Rightarrow> args \<Rightarrow> bytes option step" where
  "load_base env a =
     (case apk a of
        Some p \<Rightarrow> load_manifest_from_apk env p
      | None \<Rightarrow>
          (case manifest a of
             Some m \<Rightarrow>
               (case read_bytes env m of
                  Inl e \<Rightarrow> ([], Inl (Uncaught e))
                | Inr b \<Rightarrow> ret (Some b))
           | None \<Rightarrow> and_then (console_print env SourceMissing) (\<lambda>_. ([], Inl (Exit 1)))))"

text \<open>Lines 174 to 185: the parsed base manifest.\<close>

definition stage_load_base :: "env \<Rightarrow> args \<Rightarrow> element step" where
  "stage_load_base env a =
     and_then (load_base env a) (\<lambda>data1.
       and_then (parse_manifest env data1) (\<lambda>manifest1.
         case manifest1 of
           None \<Rightarrow> ([], Inl (Exit 1))
         | Some root \<Rightarrow> ret root))"

text \<open>Lines 187 to 189: the classified base permissions, filtered by \<open>only\<close>.\<close>

definition base_permissions :: "args \<Rightarrow> element \<Rightarrow> permission list" where
  "base_permissions a manifest1 =
     (let perms1 = map classify_permission (extract_permissions (Some manifest1))
      in case only a of
           None \<Rightarrow> perms1
         | Some cats \<Rightarrow>
             if cats \<noteq> [] then filter (\<lambda>p. category p \<in> set cats) perms1 else perms1)"

definition wants_compare :: "args \<Rightarrow> bool" where
  "wants_compare a \<longleftrightarrow> compare_apk a \<noteq> None \<or> compare_manifest a \<noteq> None"

text \<open>
  Lines 200 to 205: the comparison manifest as parsed, \<open>None\<close> included. Nothing
  catches the exception of \<open>read_bytes\<close>.
\<close>

definition stage_load_compare :: "env \<Rightarrow> args \<Rightarrow> element option step" where
  "stage_load_compare env a =
     and_then
       (case compare_apk a of
          Some p \<Rightarrow> load_manifest_from_apk env p
        | None \<Rightarrow>
            (case compare_manifest a of
               Some m \<Rightarrow>
                 (case read_bytes env m of
                    Inl e \<Rightarrow> ([], Inl (Uncaught e))
                  | Inr b \<Rightarrow> ret (Some b))
             | None \<Rightarrow> ret None))
       (parse_manifest env)"

text \<open>Line 206.\<close>

definition compare_permissions :: "element option \<Rightarrow> permission list" where
  "compare_permissions manifest2 = map classify_permission (extract_permissions manifest2)"

text \<open>Lines 211 to 218.\<close>

definition diff_messages :: "env \<Rightarrow> diff_result \<Rightarrow> unit step" where
  "diff_messages env d =
     (if added d \<noteq> [] \<or> removed d \<noteq> [] then
        and_then (console_print env CompareHeader) (\<lambda>_.
        and_then (if added d \<noteq> [] then console_print env (AddedLine (added d)) else ret ()) (\<lambda>_.
        and_then (if removed d \<noteq> [] then console_print env (RemovedLine (removed d)) else ret ())
          (\<lambda>_.
        if newDangerous d \<noteq> [] then console_print env (NewDangerousLine (newDangerous d))
        else ret ())))
      else ret ())"

text \<open>Lines 222 and 223, and lines 227 and 228: the export when a destination is given.\<close>

definition export_if_output :: "env \<Rightarrow> args \<Rightarrow> report \<Rightarrow> unit step" where
  "export_if_output env a rep =
     (case output_path a of Some p \<Rightarrow> export_json env rep p | None \<Rightarrow> ret ())"

text \<open>Lines 227 to 230.\<close>

definition finish :: "env \<Rightarrow> args \<Rightarrow> report \<Rightarrow> run" where
  "finish env a rep =
     run_of (export_if_output env a rep) (\<lambda>_. \<lparr>effects = [], outcome = Exit 0\<rparr>)"

text \<open>Lines 220 to 224: the policy exit, after the diff has been printed.\<close>

definition decide_exit :: "env \<Rightarrow> args \<Rightarrow> report \<Rightarrow> diff_result \<Rightarrow> run" where
  "decide_exit env a rep2 d =
     (if fail_on_new_dangerous a \<and> newDangerous d \<noteq> [] then
        run_of (console_print env NewDangerousFound) (\<lambda>_.
        run_of (export_if_output env a rep2) (\<lambda>_. \<lparr>effects = [], outcome = Exit 3\<rparr>))
      else finish env a rep2)"

definition analyze :: "env \<Rightarrow> args \<Rightarrow> run" where
  "analyze env a =
     run_of (stage_load_base env a) (\<lambda>manifest1.
       let perms1 = base_permissions a manifest1;
           rep = \<lparr>permissions = perms1, diff = None\<rparr>
       in run_of (print_table env perms1 ''Permissions (Base)'') (\<lambda>_.
            if wants_compare a then
              run_of (stage_load_compare env a) (\<lambda>manifest2.
                case diff_permissions perms1 (compare_permissions manifest2) of
                  Inl e \<Rightarrow> \<lparr>effects = [], outcome = Uncaught e\<rparr>
                | Inr d \<Rightarrow>
                    run_of (diff_messages env d) (\<lambda>_. decide_exit env a (rep\<lparr>diff := Some d\<rparr>) d))
            else finish env a rep))"

section \<open>The extractor as the specification words it\<close>

text \<open>
  The specification's reading of the extractor: the trimmed values of the namespaced
  \<open>name\<close> attribute on the two kinds of element, an element being skipped only when
  the attribute is missing; then \<open>sorted(set(names))\<close>.
\<close>

definition spec_trimmed_names :: "element \<Rightarrow> pystr list" where
  "spec_trimmed_names root =
     map strip (List.map_filter (\<lambda>el. el_get el android_name)
       (filter (\<lambda>el. tag el = str ''uses-permission'' \<or> tag el = str ''uses-permission-sdk-23'')
          (children root)))"

definition spec_extract :: "element option \<Rightarrow> pystr list" where
  "spec_extract t =
     (case t of None \<Rightarrow> [] | Some root \<Rightarrow> sort (remdups (spec_trimmed_names root)))"

section \<open>The parser as the specification words it\<close>

text \<open>
  The specification's reading of \<open>parse_manifest\<close>: try the decoder when it is
  installed; when it is absent or the attempt fails, parse the same bytes as plain XML;
  fail only when both attempts fail.
\<close>

definition spec_parse_manifest :: "env \<Rightarrow> bytes option \<Rightarrow> element option" where
  "spec_parse_manifest env data =
     (let decoded =
            (case apkutils2 env of
               None \<Rightarrow> None
             | Some load_manifest_xml \<Rightarrow>
                 (case load_manifest_xml data of
                    Inl e \<Rightarrow> None
                  | Inr xml \<Rightarrow>
                      (case fromstring env (Some xml) of Inl e \<Rightarrow> None | Inr root \<Rightarrow> Some root)))
      in case decoded of
           Some root \<Rightarrow> Some root
         | None \<Rightarrow> (case fromstring env data of Inl e \<Rightarrow> None | Inr root \<Rightarrow> Some root))"

section \<open>Sample inputs\<close>

text \<open>A manifest whose only permission element has an empty \<open>android:name\<close>.\<close>

definition empty_name_manifest :: element where
  "empty_name_manifest =
     Element (str ''manifest'') []
       [Element (str ''uses-permission'') [(android_name, str '''')] []]"

text \<open>
  A manifest with a padded name, a name on an element of another tag, a duplicate across
  the two tags, a \<open>name\<close> attribute outside the Android namespace and an empty name.
\<close>

definition sample_manifest :: element where
  "sample_manifest =
     Element (str ''manifest'') []
       [Element (str ''uses-permission'')
          [(android_name, str '' android.permission.INTERNET '')] [],
        Element (str ''application'') [(android_name, str ''android.permission.READ_SMS'')] [],
        Element (str ''uses-permission-sdk-23'')
          [(android_name, str ''android.permission.CAMERA'')] [],
        Element (str ''uses-permission'') [(str ''name'', str ''android.permission.SEND_SMS'')] [],
        Element (str ''uses-permission'') [(android_name, str ''android.permission.CAMERA'')] [],
        Element (str ''uses-permission'') [(android_name, str '''')] []]"

text \<open>
  Six manifests, as \<open>fromstring\<close> returns them. The last two declare a permission
  whose name is the text \<open>[/x]\<close>.
\<close>

definition uses_permission :: "string \<Rightarrow> element" where
  "uses_permission n = Element (str ''uses-permission'') [(android_name, str n)] []"

definition camera_manifest :: element where
  "camera_manifest =
     Element (str ''manifest'') [] [uses_permission ''android.permission.CAMERA'']"

definition internet_manifest :: element where
  "internet_manifest =
     Element (str ''manifest'') [] [uses_permission ''android.permission.INTERNET'']"

definition internet_camera_manifest :: element where
  "internet_camera_manifest =
     Element (str ''manifest'') []
       [uses_permission ''android.permission.INTERNET'',
        uses_permission ''android.permission.CAMERA'']"

definition empty_manifest :: element where
  "empty_manifest = Element (str ''manifest'') [] [Element (str ''application'') [] []]"

definition markup_manifest :: element where
  "markup_manifest = Element (str ''manifest'') [] [uses_permission ''[/x]'']"

definition markup_camera_manifest :: element where
  "markup_camera_manifest =
     Element (str ''manifest'') []
       [uses_permission ''[/x]'', uses_permission ''android.permission.CAMERA'']"

text \<open>
  The console of the sample environment. The texts the source interpolates into the
  markup of a message are listed by \<open>interpolated\<close>; \<open>exception_text\<close> is \<open>str(e)\<close>, which
  for \<open>FileNotFoundError\<close> ends with the quoted path (39 is the quote) and for
  \<open>MarkupError\<close> starts by quoting the tag. In
  the sample runs an interpolated text holds either no \<open>[/\<close> at all or the tag \<open>[/x]\<close>,
  which no tag opens, and on such texts rich raises \<open>MarkupError\<close> exactly when the text
  holds \<open>[/\<close>.
\<close>

definition exception_text :: "py_exception \<Rightarrow> pystr" where
  "exception_text e =
     (case e of
        KeyError n \<Rightarrow> [39] @ n @ [39]
      | FileNotFoundError p \<Rightarrow>
          str ''[Errno 2] No such file or directory: '' @ [39] @ str p @ [39]
      | BadZipFile \<Rightarrow> str ''File is not a zip file''
      | XMLSyntaxError \<Rightarrow> str ''Start tag expected''
      | ValueError \<Rightarrow> str ''can only parse strings''
      | OSError \<Rightarrow> str ''[Errno 30] Read-only file system''
      | MarkupError \<Rightarrow> str ''closing tag '' @ [39] @ str ''[/x]'' @ [39])"

definition permission_texts :: "permission \<Rightarrow> pystr list" where
  "permission_texts p =
     [name p, category p, (case group_field p of None \<Rightarrow> [] | Some g \<Rightarrow> g)]"

definition interpolated :: "message \<Rightarrow> pystr list" where
  "interpolated m =
     (case m of
        ApkNotFound p \<Rightarrow> [str p]
      | ExtractionFailed e \<Rightarrow> [exception_text e]
      | ParseFailed e \<Rightarrow> [exception_text e]
      | SourceMissing \<Rightarrow> []
      | PermissionTable perms title \<Rightarrow> str title # concat (map permission_texts perms)
      | CompareHeader \<Rightarrow> []
      | AddedLine ns \<Rightarrow> ns
      | RemovedLine ns \<Rightarrow> ns
      | NewDangerousLine ns \<Rightarrow> ns
      | NewDangerousFound \<Rightarrow> []
      | JsonSaved p \<Rightarrow> [str p]
      | JsonWriteFailed e \<Rightarrow> [exception_text e])"

fun closing_tag_in :: "pystr \<Rightarrow> bool" where
  "closing_tag_in (a # b # cs) = ((a = 91 \<and> b = 47) \<or> closing_tag_in (b # cs))"
| "closing_tag_in cs = False"

definition sample_console :: "message \<Rightarrow> py_exception option" where
  "sample_console m =
     (if list_ex closing_tag_in (interpolated m) then Some MarkupError else None)"

text \<open>
  A sample environment. The contents of its six manifest files are told apart by one
  byte, and \<open>fromstring\<close> is the table from each content to its tree; it raises
  \<open>ValueError\<close> on \<open>None\<close>, as lxml does, and \<open>XMLSyntaxError\<close> on any other bytes.
  The archive \<open>app.apk\<close> holds the camera manifest; no other archive or file exists.
  The decoder is not installed. Every file can be written except in the two directories
  \<open>nodir\<close> and \<open>nodir[/x]\<close>, which do not exist.
\<close>

definition camera_xml :: bytes where "camera_xml = [1]"
definition internet_xml :: bytes where "internet_xml = [2]"
definition internet_camera_xml :: bytes where "internet_camera_xml = [3]"
definition empty_xml :: bytes where "empty_xml = [4]"
definition markup_xml :: bytes where "markup_xml = [5]"
definition markup_camera_xml :: bytes where "markup_camera_xml = [6]"

definition sample_fromstring :: "bytes option \<Rightarrow> py_exception + element" where
  "sample_fromstring data =
     (case data of
        None \<Rightarrow> Inl ValueError
      | Some b \<Rightarrow>
          if b = camera_xml then Inr camera_manifest
          else if b = internet_xml then Inr internet_manifest
          else if b = internet_camera_xml then Inr internet_camera_manifest
          else if b = empty_xml then Inr empty_manifest
          else if b = markup_xml then Inr markup_manifest
          else if b = markup_camera_xml then Inr markup_camera_manifest
          else Inl XMLSyntaxError)"

definition sample_read_bytes :: "path \<Rightarrow> py_exception + bytes" where
  "sample_read_bytes p =
     (if p = ''camera.xml'' then Inr camera_xml
      else if p = ''internet.xml'' then Inr internet_xml
      else if p = ''both.xml'' then Inr internet_camera_xml
      else if p = ''empty.xml'' then Inr empty_xml
      else if p = ''markup.xml'' then Inr markup_xml
      else if p = ''markup_camera.xml'' then Inr markup_camera_xml
      else Inl (FileNotFoundError p))"

definition sample_json_write :: "path \<Rightarrow> report \<Rightarrow> py_exception option" where
  "sample_json_write p r =
     (if p = ''nodir/report.json'' \<or> p = ''nodir[/x]/report.json''
      then Some (FileNotFoundError p) else None)"

definition sample_env :: env where
  "sample_env =
     \<lparr>path_exists = (\<lambda>p. p = ''app.apk''),
      zip_read = (\<lambda>p. if p = ''app.apk'' then Inr camera_xml else Inl BadZipFile),
      read_bytes = sample_read_bytes,
      apkutils2 = None,
      fromstring = sample_fromstring,
      json_write = sample_json_write,
      console = sample_console\<rparr>"

text \<open>The same environment with a decoder installed that rejects every input.\<close>

definition rejecting_decoder :: "bytes option \<Rightarrow> py_exception + bytes" where
  "rejecting_decoder data = Inl ValueError"

definition rejecting_env :: env where
  "rejecting_env = sample_env\<lparr>apkutils2 := Some rejecting_decoder\<rparr>"

text \<open>The command line with no option given.\<close>

definition no_args :: args where
  "no_args =
     \<lparr>apk = None, manifest = None, compare_apk = None, compare_manifest = None,
      output_path = None, only = None, fail_on_new_dangerous = False, no_color = False\<rparr>"

section \<open>Basic facts\<close>

lemma str_eq_iff [simp]: "str a = str b \<longleftrightarrow> a = b"
  unfolding str_def by (rule inj_map_eq_map) (rule inj_of_char)

lemma str_Nil [simp]: "str [] = []"
  by (simp add: str_def)

lemma str_eq_Nil_iff [simp]: "str a = [] \<longleftrightarrow> a = []" "[] = str a \<longleftrightarrow> a = []"
  by (auto simp: str_def)

lemma name_classify_permission: "name (classify_permission n) = n"
  by (simp add: classify_permission_def Let_def split: option.splits prod.splits)

lemma classified_names: "map name (map classify_permission ns) = ns"
  by (induction ns) (simp_all add: name_classify_permission)

section \<open>The classifier\<close>

text \<open>
  C4. \<open>classify_permission\<close> is a total function of the catalog and the name, with no
  error value in its result type. For every name the record carries that name; when the
  catalog has the name (the same code points, so the match is case-sensitive) the
  category and the group are those of the catalog entry, and otherwise the category is
  \<open>unknown\<close> and the group is null; \<open>sensitive\<close> holds exactly when the category is
  \<open>dangerous\<close> or \<open>signature\<close>; the category is one of the four known ones.
\<close>

theorem classify_permission_total:
  "name (classify_permission n) = n
   \<and> (case map_of PERMISSION_CATEGORIES n of
        Some (c, g) \<Rightarrow>
          category (classify_permission n) = c \<and> group_field (classify_permission n) = Some g
      | None \<Rightarrow>
          category (classify_permission n) = str ''unknown''
          \<and> group_field (classify_permission n) = None)
   \<and> (sensitive (classify_permission n) \<longleftrightarrow>
        category (classify_permission n) \<in> {str ''dangerous'', str ''signature''})
   \<and> category (classify_permission n)
        \<in> {str ''normal'', str ''dangerous'', str ''signature'', str ''unknown''}"
proof -
  have cats: "\<And>c g. map_of PERMISSION_CATEGORIES n = Some (c, g) \<Longrightarrow>
      c \<in> {str ''normal'', str ''dangerous'', str ''signature''}"
    by (auto simp: PERMISSION_CATEGORIES_def split: if_splits)
  show ?thesis
    using cats by (auto simp: classify_permission_def split: option.splits)
qed

theorem classify_permission_total_witness:
  "category (classify_permission (str ''android.permission.READ_LOGS'')) = str ''signature''
   \<and> group_field (classify_permission (str ''android.permission.READ_LOGS'')) = Some (str ''SYSTEM'')
   \<and> sensitive (classify_permission (str ''android.permission.READ_LOGS''))
   \<and> category (classify_permission (str ''android.permission.read_logs'')) = str ''unknown''
   \<and> group_field (classify_permission (str ''android.permission.read_logs'')) = None
   \<and> \<not> sensitive (classify_permission (str ''android.permission.read_logs''))"
  using classify_permission_total [of "str ''android.permission.READ_LOGS''"]
    classify_permission_total [of "str ''android.permission.read_logs''"]
  by (simp add: PERMISSION_CATEGORIES_def)

section \<open>The extractor\<close>

lemma collect_names_set:
  "set (collect_names els perms) =
     set perms \<union> {strip v | el v. el \<in> set els \<and> el_get el android_name = Some v \<and> v \<noteq> []}"
  by (induction els arbitrary: perms) (auto split: option.splits)

lemma collect_tags_set:
  "set (collect_tags root ts perms) =
     set perms \<union> {strip v | el v. el \<in> set (children root) \<and> tag el \<in> set ts
                      \<and> el_get el android_name = Some v \<and> v \<noteq> []}"
  by (induction ts arbitrary: perms) (auto simp: collect_names_set findall_def)

lemma extract_permissions_sorted_distinct:
  "sorted (extract_permissions t) \<and> distinct (extract_permissions t)"
  by (cases t) (simp_all add: extract_permissions_def)

lemma permission_sets_sorted:
  "sorted (map name (compare_permissions t)) \<and> distinct (map name (compare_permissions t))
   \<and> sorted (map name (base_permissions a m)) \<and> distinct (map name (base_permissions a m))"
proof -
  let ?ps = "map classify_permission (extract_permissions (Some m))"
  have c: "map name (compare_permissions t) = extract_permissions t"
    by (simp only: compare_permissions_def classified_names)
  have n: "sorted (map name ?ps)" "distinct (map name ?ps)"
    using extract_permissions_sorted_distinct [of "Some m"]
    by (simp_all only: classified_names)
  have f: "\<And>P. sorted (map name (filter P ?ps)) \<and> distinct (map name (filter P ?ps))"
    using n by (simp add: sorted_filter distinct_map_filter)
  have b: "sorted (map name (base_permissions a m)) \<and> distinct (map name (base_permissions a m))"
    unfolding base_permissions_def Let_def using n f
    by (simp split: option.splits)
  show ?thesis
    using b extract_permissions_sorted_distinct [of t] by (simp only: c) 
qed

lemma sample_manifest_extract:
  "extract_permissions (Some sample_manifest) =
     [str ''android.permission.CAMERA'', str ''android.permission.INTERNET'']"
  by (simp add: extract_permissions_def sample_manifest_def permission_tags_def findall_def
      el_get_def strip_def sorted_list_of_set_sort_remdups android_name_def str_def
      py_isspace_def)

text \<open>
  C3, as stated, fails: an element whose \<open>android:name\<close> is present but empty is
  skipped by \<open>if name:\<close>, while the sorted set of the trimmed values of the attributes
  that are present contains the empty string.
\<close>

theorem extract_permissions_empty_name_counterexample:
  "extract_permissions (Some empty_name_manifest) \<noteq> spec_extract (Some empty_name_manifest)"
  by (simp add: extract_permissions_def spec_extract_def spec_trimmed_names_def
      empty_name_manifest_def permission_tags_def findall_def el_get_def
      List.map_filter_def strip_def)

text \<open>
  C3, amended. For every parsed tree, \<open>extract_permissions\<close> returns the sorted list
  without duplicates whose members are exactly the trimmed values of the
  Android-namespaced \<open>name\<close> attribute of the direct children tagged \<open>uses-permission\<close>
  or \<open>uses-permission-sdk-23\<close>, where an element is skipped when the attribute is
  missing or its value is empty before trimming; for an absent tree it returns the empty
  list.
\<close>

theorem extract_permissions_sorted_dedup:
  "extract_permissions None = []
   \<and> sorted (extract_permissions (Some root))
   \<and> distinct (extract_permissions (Some root))
   \<and> set (extract_permissions (Some root)) =
       {strip v | el v. el \<in> set (children root) \<and> tag el \<in> set permission_tags
                        \<and> el_get el android_name = Some v \<and> v \<noteq> []}"
proof -
  let ?perms = "collect_tags root permission_tags []"
  have res: "extract_permissions (Some root) = sorted_list_of_set (set ?perms)"
    by (simp add: extract_permissions_def)
  have "set (sorted_list_of_set (set ?perms)) = set ?perms"
    by simp
  then have "set (extract_permissions (Some root)) =
       {strip v | el v. el \<in> set (children root) \<and> tag el \<in> set permission_tags
                        \<and> el_get el android_name = Some v \<and> v \<noteq> []}"
    unfolding res by (simp only: collect_tags_set) simp
  moreover have "sorted (extract_permissions (Some root))"
    unfolding res by simp
  moreover have "distinct (extract_permissions (Some root))"
    unfolding res by simp
  moreover have "extract_permissions None = []"
    by (simp add: extract_permissions_def)
  ultimately show ?thesis by blast
qed

theorem extract_permissions_sorted_dedup_witness:
  "sorted (extract_permissions (Some sample_manifest))
   \<and> distinct (extract_permissions (Some sample_manifest))
   \<and> extract_permissions (Some sample_manifest) =
       [str ''android.permission.CAMERA'', str ''android.permission.INTERNET'']"
proof -
  from extract_permissions_sorted_dedup [of sample_manifest]
  have "sorted (extract_permissions (Some sample_manifest))
        \<and> distinct (extract_permissions (Some sample_manifest))"
    by blast
  then show ?thesis
    using sample_manifest_extract by blast
qed

section \<open>The differ: dictionaries and the result\<close>

lemma dict_fold_keys:
  "fst ` set (fold (\<lambda>p d. AList.update (name p) p d) ps d0) = fst ` set d0 \<union> name ` set ps"
  by (induction ps arbitrary: d0) (auto simp: AList.dom_update)

lemma dict_fold_distinct:
  "distinct (map fst d0) \<Longrightarrow> distinct (map fst (fold (\<lambda>p d. AList.update (name p) p d) ps d0))"
  by (induction ps arbitrary: d0) (auto simp: AList.distinct_update)

lemma dict_fold_lookup:
  "map_of (fold (\<lambda>p d. AList.update (name p) p d) ps d0) n = Some q \<Longrightarrow>
     (q \<in> set ps \<and> name q = n) \<or> map_of d0 n = Some q"
proof (induction ps arbitrary: d0)
  case Nil
  then show ?case by simp
next
  case (Cons p ps)
  from Cons.prems have "map_of (fold (\<lambda>p d. AList.update (name p) p d) ps (AList.update (name p) p d0)) n = Some q"
    by simp
  from Cons.IH [OF this] show ?case
    by (auto simp: AList.update_conv' split: if_splits)
qed

lemma dict_fold_sorted:
  "sorted (map fst d0 @ map name ps) \<Longrightarrow>
     sorted (map fst (fold (\<lambda>p d. AList.update (name p) p d) ps d0))"
proof (induction ps arbitrary: d0)
  case Nil
  then show ?case by simp
next
  case (Cons p ps)
  have "sorted (map fst (AList.update (name p) p d0) @ map name ps)"
    using Cons.prems by (auto simp: AList.update_keys sorted_append)
  from Cons.IH [OF this] show ?case by simp
qed

lemma dict_fold_keys_distinct:
  "distinct (map fst d0 @ map name ps) \<Longrightarrow>
     map fst (fold (\<lambda>p d. AList.update (name p) p d) ps d0) = map fst d0 @ map name ps"
proof (induction ps arbitrary: d0)
  case Nil
  then show ?case by simp
next
  case (Cons p ps)
  have k: "map fst (AList.update (name p) p d0) = map fst d0 @ [name p]"
    using Cons.prems by (auto simp: AList.update_keys)
  have "distinct (map fst (AList.update (name p) p d0) @ map name ps)"
    unfolding k using Cons.prems by auto
  from Cons.IH [OF this] show ?case by (simp add: k)
qed

lemma dict_of_keys_set: "fst ` set (dict_of ps) = name ` set ps"
  using dict_fold_keys [of ps "[]"] by (simp add: dict_of_def)

lemma dict_of_distinct: "distinct (map fst (dict_of ps))"
  using dict_fold_distinct [of "[]" ps] by (simp add: dict_of_def)

lemma dict_of_lookup: "map_of (dict_of ps) n = Some q \<Longrightarrow> q \<in> set ps \<and> name q = n"
  using dict_fold_lookup [of ps "[]" n q] by (simp add: dict_of_def)

lemma dict_of_None: "map_of (dict_of ps) n = None \<longleftrightarrow> n \<notin> name ` set ps"
  by (simp add: map_of_eq_None_iff dict_of_keys_set)

lemma dict_of_sorted: "sorted (map name ps) \<Longrightarrow> sorted (map fst (dict_of ps))"
  using dict_fold_sorted [of "[]" ps] by (simp add: dict_of_def)

lemma dict_of_keys_distinct: "distinct (map name ps) \<Longrightarrow> map fst (dict_of ps) = map name ps"
  using dict_fold_keys_distinct [of "[]" ps] by (simp add: dict_of_def)

lemma distinct_name_unique:
  "distinct (map name ps) \<Longrightarrow> p \<in> set ps \<Longrightarrow> q \<in> set ps \<Longrightarrow> name p = name q \<Longrightarrow> p = q"
  by (auto simp: distinct_map dest: inj_onD)

lemma dict_of_lookup_distinct:
  assumes "distinct (map name ps)" "p \<in> set ps"
  shows "map_of (dict_of ps) (name p) = Some p"
proof -
  have "name p \<in> name ` set ps" using assms(2) by simp
  then obtain q where q: "map_of (dict_of ps) (name p) = Some q"
    using dict_of_None [of ps "name p"] by (cases "map_of (dict_of ps) (name p)") auto
  from dict_of_lookup [OF q] have "q \<in> set ps" "name q = name p" by auto
  then have "q = p"
    by (rule distinct_name_unique [OF assms(1) _ assms(2)])
  with q show ?thesis by simp
qed

lemma new_dangerous_of_filter:
  "set ns \<subseteq> fst ` set d \<Longrightarrow>
     new_dangerous_of ns d =
       Inr (filter (\<lambda>n. \<exists>p. map_of d n = Some p \<and> category p = str ''dangerous'') ns)"
proof (induction ns)
  case Nil
  then show ?case by simp
next
  case (Cons n ns)
  then obtain p where "map_of d n = Some p"
    by (cases "map_of d n") (auto simp: map_of_eq_None_iff)
  with Cons show ?case by simp
qed

lemma diff_permissions_eq:
  "diff_permissions old new =
     Inr \<lparr>added = filter (\<lambda>n. n \<notin> name ` set old) (map fst (dict_of new)),
          removed = filter (\<lambda>n. n \<notin> name ` set new) (map fst (dict_of old)),
          newDangerous = filter (\<lambda>n. \<exists>p. map_of (dict_of new) n = Some p \<and> category p = str ''dangerous'')
             (filter (\<lambda>n. n \<notin> name ` set old) (map fst (dict_of new)))\<rparr>"
proof -
  have "set (filter (\<lambda>n. n \<notin> name ` set old) (map fst (dict_of new))) \<subseteq> fst ` set (dict_of new)"
    by auto
  from new_dangerous_of_filter [OF this] show ?thesis
    by (simp add: diff_permissions_def dict_of_None Let_def)
qed


lemma new_dangerous_distinct:
  assumes dist: "distinct (map name new)"
  shows "filter (\<lambda>n. \<exists>p. map_of (dict_of new) n = Some p \<and> category p = str ''dangerous'') (filter (\<lambda>n. n \<notin> name ` set old) (map fst (dict_of new))) = filter (\<lambda>n. \<forall>p \<in> set new. name p = n \<longrightarrow> category p = str ''dangerous'') (filter (\<lambda>n. n \<notin> name ` set old) (map fst (dict_of new)))"
proof (rule filter_cong [OF refl])
  fix n assume "n \<in> set (filter (\<lambda>n. n \<notin> name ` set old) (map fst (dict_of new)))"
  then have "n \<in> fst ` set (dict_of new)" by simp
  then have "n \<in> name ` set new" by (simp only: dict_of_keys_set)
  then obtain q where q: "q \<in> set new" "name q = n" by blast
  have l: "map_of (dict_of new) n = Some q"
    using dict_of_lookup_distinct [OF dist q(1)] q(2) by simp
  show "(\<exists>p. map_of (dict_of new) n = Some p \<and> category p = str ''dangerous'')
        = (\<forall>p \<in> set new. name p = n \<longrightarrow> category p = str ''dangerous'')"
  proof
    assume "\<exists>p. map_of (dict_of new) n = Some p \<and> category p = str ''dangerous''"
    with l have c: "category q = str ''dangerous''" by simp
    show "\<forall>p \<in> set new. name p = n \<longrightarrow> category p = str ''dangerous''"
    proof (intro ballI impI)
      fix p assume p: "p \<in> set new" "name p = n"
      have "p = q"
        by (rule distinct_name_unique [OF dist p(1) q(1)]) (simp add: p(2) q(2))
      with c show "category p = str ''dangerous''" by simp
    qed
  next
    assume "\<forall>p \<in> set new. name p = n \<longrightarrow> category p = str ''dangerous''"
    with q have "category q = str ''dangerous''" by blast
    with l show "\<exists>p. map_of (dict_of new) n = Some p \<and> category p = str ''dangerous''" by blast
  qed
qed


text \<open>
  C5. For every pair of permission lists, \<open>diff_permissions\<close> returns a result (the
  subscript \<open>new_names[n]\<close> never raises). \<open>added\<close> holds the names of \<open>new\<close> that are
  not in \<open>old\<close> and \<open>removed\<close> the converse, so they are disjoint; \<open>newDangerous\<close> is
  a subset of \<open>added\<close>, and each of its members names a record of \<open>new\<close> whose category
  is \<open>dangerous\<close>. When the names of an input are in sorted order, as the extractor
  leaves them, the lists drawn from it are sorted; when they are also without
  duplicates, the lists are the input's names in their order, filtered. The two lists
  the command hands to \<open>diff_permissions\<close> have their names sorted and without
  duplicates.
\<close>

theorem diff_permissions_props:
  "\<exists>d. diff_permissions old new = Inr d
     \<and> set (added d) = name ` set new - name ` set old
     \<and> set (removed d) = name ` set old - name ` set new
     \<and> set (added d) \<inter> set (removed d) = {}
     \<and> set (newDangerous d) \<subseteq> set (added d)
     \<and> (\<forall>n \<in> set (newDangerous d). \<exists>p \<in> set new. name p = n \<and> category p = str ''dangerous'')
     \<and> (sorted (map name new) \<longrightarrow> sorted (added d) \<and> sorted (newDangerous d))
     \<and> (sorted (map name old) \<longrightarrow> sorted (removed d))
     \<and> (distinct (map name new) \<longrightarrow>
          added d = filter (\<lambda>n. n \<notin> name ` set old) (map name new)
          \<and> newDangerous d =
              filter (\<lambda>n. \<forall>p \<in> set new. name p = n \<longrightarrow> category p = str ''dangerous'') (added d))
     \<and> (distinct (map name old) \<longrightarrow>
          removed d = filter (\<lambda>n. n \<notin> name ` set new) (map name old))
     \<and> sorted (map name (base_permissions a manifest1))
     \<and> distinct (map name (base_permissions a manifest1))
     \<and> sorted (map name (compare_permissions manifest2))
     \<and> distinct (map name (compare_permissions manifest2))"
proof -
  let ?A = "filter (\<lambda>n. n \<notin> name ` set old) (map fst (dict_of new))"
  let ?R = "filter (\<lambda>n. n \<notin> name ` set new) (map fst (dict_of old))"
  let ?D = "filter (\<lambda>n. \<exists>p. map_of (dict_of new) n = Some p \<and> category p = str ''dangerous'') ?A"
  let ?d = "\<lparr>added = ?A, removed = ?R, newDangerous = ?D\<rparr>"
  have eq: "diff_permissions old new = Inr ?d" by (rule diff_permissions_eq)
  have a: "set ?A = name ` set new - name ` set old"
    by (auto simp: dict_of_keys_set)
  have r: "set ?R = name ` set old - name ` set new"
    by (auto simp: dict_of_keys_set)
  have disj: "set ?A \<inter> set ?R = {}" unfolding a r by blast
  have sub: "set ?D \<subseteq> set ?A" by (rule filter_is_subset)
  have dang: "\<forall>n \<in> set ?D. \<exists>p \<in> set new. name p = n \<and> category p = str ''dangerous''"
  proof
    fix n assume "n \<in> set ?D"
    then obtain p where p: "map_of (dict_of new) n = Some p" "category p = str ''dangerous''"
      by auto
    from dict_of_lookup [OF p(1)] p(2)
    show "\<exists>p \<in> set new. name p = n \<and> category p = str ''dangerous''" by blast
  qed
  have sn: "sorted (map name new) \<longrightarrow> sorted ?A \<and> sorted ?D"
    using dict_of_sorted [of new] by (simp add: sorted_wrt_filter)
  have so: "sorted (map name old) \<longrightarrow> sorted ?R"
    using dict_of_sorted [of old] by (simp add: sorted_wrt_filter)
  have dn: "distinct (map name new) \<longrightarrow>
          ?A = filter (\<lambda>n. n \<notin> name ` set old) (map name new)
          \<and> ?D = filter (\<lambda>n. \<forall>p \<in> set new. name p = n \<longrightarrow> category p = str ''dangerous'') ?A"
    using dict_of_keys_distinct [of new] new_dangerous_distinct [of new old] by simp
  have do: "distinct (map name old) \<longrightarrow> ?R = filter (\<lambda>n. n \<notin> name ` set new) (map name old)"
    using dict_of_keys_distinct [of old] by simp
  show ?thesis
  proof (intro exI [of _ ?d] conjI)
    show "diff_permissions old new = Inr ?d" by (rule eq)
    show "set (added ?d) = name ` set new - name ` set old"
      by (simp only: diff_result.simps a)
    show "set (removed ?d) = name ` set old - name ` set new"
      by (simp only: diff_result.simps r)
    show "set (added ?d) \<inter> set (removed ?d) = {}"
      by (simp only: diff_result.simps disj)
    show "set (newDangerous ?d) \<subseteq> set (added ?d)"
      using sub by (simp only: diff_result.simps)
    show "\<forall>n \<in> set (newDangerous ?d). \<exists>p \<in> set new. name p = n \<and> category p = str ''dangerous''"
      using dang by (simp only: diff_result.simps)
    show "sorted (map name new) \<longrightarrow> sorted (added ?d) \<and> sorted (newDangerous ?d)"
      using sn by (simp only: diff_result.simps)
    show "sorted (map name old) \<longrightarrow> sorted (removed ?d)"
      using so by (simp only: diff_result.simps)
    show "distinct (map name new) \<longrightarrow>
          added ?d = filter (\<lambda>n. n \<notin> name ` set old) (map name new)
          \<and> newDangerous ?d =
              filter (\<lambda>n. \<forall>p \<in> set new. name p = n \<longrightarrow> category p = str ''dangerous'') (added ?d)"
      using dn by (simp only: diff_result.simps)
    show "distinct (map name old) \<longrightarrow>
          removed ?d = filter (\<lambda>n. n \<notin> name ` set new) (map name old)"
      using do by (simp only: diff_result.simps)
    show "sorted (map name (base_permissions a manifest1))"
      "distinct (map name (base_permissions a manifest1))"
      "sorted (map name (compare_permissions manifest2))"
      "distinct (map name (compare_permissions manifest2))"
      using permission_sets_sorted [of manifest2 a manifest1] by blast+
  qed
qed


theorem diff_permissions_props_witness:
  "sorted (map name (map classify_permission
       [str ''android.permission.CAMERA'', str ''android.permission.INTERNET'']))
   \<and> distinct (map name (map classify_permission
       [str ''android.permission.CAMERA'', str ''android.permission.INTERNET'']))
   \<and> sorted (map name (map classify_permission
       [str ''android.permission.INTERNET'', str ''android.permission.READ_SMS'']))
   \<and> distinct (map name (map classify_permission
       [str ''android.permission.INTERNET'', str ''android.permission.READ_SMS'']))
   \<and> diff_permissions
         (map classify_permission
            [str ''android.permission.INTERNET'', str ''android.permission.READ_SMS''])
         (map classify_permission
            [str ''android.permission.CAMERA'', str ''android.permission.INTERNET''])
       = Inr \<lparr>added = [str ''android.permission.CAMERA''],
              removed = [str ''android.permission.READ_SMS''],
              newDangerous = [str ''android.permission.CAMERA'']\<rparr>"
proof -
  let ?old = "map classify_permission
            [str ''android.permission.INTERNET'', str ''android.permission.READ_SMS'']"
  let ?new = "map classify_permission
            [str ''android.permission.CAMERA'', str ''android.permission.INTERNET'']"
  have names: "map name ?old = [str ''android.permission.INTERNET'', str ''android.permission.READ_SMS'']"
    "map name ?new = [str ''android.permission.CAMERA'', str ''android.permission.INTERNET'']"
    by (simp_all add: classify_permission_def PERMISSION_CATEGORIES_def)
  have s: "sorted (map name ?new)" "distinct (map name ?new)"
    "sorted (map name ?old)" "distinct (map name ?old)"
    unfolding names by (simp_all add: str_def)
  from diff_permissions_props [of ?old ?new] s
  obtain d where d: "diff_permissions ?old ?new = Inr d"
    and a: "added d = filter (\<lambda>n. n \<notin> name ` set ?old) (map name ?new)"
    and nd: "newDangerous d =
       filter (\<lambda>n. \<forall>p \<in> set ?new. name p = n \<longrightarrow> category p = str ''dangerous'') (added d)"
    and r: "removed d = filter (\<lambda>n. n \<notin> name ` set ?new) (map name ?old)"
    by blast
  have a': "added d = [str ''android.permission.CAMERA'']"
    unfolding a by (simp add: classify_permission_def PERMISSION_CATEGORIES_def)
  have r': "removed d = [str ''android.permission.READ_SMS'']"
    unfolding r by (simp add: classify_permission_def PERMISSION_CATEGORIES_def)
  have nd': "newDangerous d = [str ''android.permission.CAMERA'']"
    unfolding nd a' by (simp add: classify_permission_def PERMISSION_CATEGORIES_def)
  have "d = \<lparr>added = [str ''android.permission.CAMERA''],
              removed = [str ''android.permission.READ_SMS''],
              newDangerous = [str ''android.permission.CAMERA'']\<rparr>"
    using a' r' nd' by (cases d) simp
  with d s show ?thesis by blast
qed

section \<open>The loader\<close>

text \<open>
  C1, as stated, fails: with a decoder installed that rejects the bytes,
  \<open>parse_manifest\<close> reports the error and returns \<open>None\<close>, although the same bytes
  parse as plain XML; the specification's parser returns the tree.
\<close>

theorem parse_manifest_no_fallback_counterexample:
  "apkutils2 rejecting_env = Some rejecting_decoder
   \<and> rejecting_decoder (Some camera_xml) = Inl ValueError
   \<and> fromstring rejecting_env (Some camera_xml) = Inr camera_manifest
   \<and> parse_manifest rejecting_env (Some camera_xml) = ([Print (ParseFailed ValueError)], Inr None)
   \<and> snd (parse_manifest rejecting_env (Some camera_xml))
       \<noteq> Inr (spec_parse_manifest rejecting_env (Some camera_xml))"
  by (simp add: rejecting_env_def sample_env_def rejecting_decoder_def sample_fromstring_def
      parse_manifest_def spec_parse_manifest_def parse_manifest_except_def and_then_def
      ret_def console_print_def sample_console_def interpolated_def exception_text_def
      str_def)

text \<open>
  C1, amended. For every manifest input, \<open>parse_manifest\<close> parses the bytes as plain XML
  directly only when the decoder is not installed. When the decoder is installed, only
  its output is parsed: when the decoder raises, or its output does not parse,
  \<open>parse_manifest\<close> runs its handler, which prints the error and returns \<open>None\<close>,
  without a plain-XML attempt. (The handler returns \<open>None\<close> after its print; an
  exception raised by that print leaves the function.)
\<close>

theorem parse_manifest_decoder_or_plain:
  "(apkutils2 env = None \<longrightarrow>
      parse_manifest env data =
        (case fromstring env data of
           Inl e \<Rightarrow> parse_manifest_except env e
         | Inr root \<Rightarrow> ([], Inr (Some root))))
   \<and> (\<forall>load_manifest_xml. apkutils2 env = Some load_manifest_xml \<longrightarrow>
        parse_manifest env data =
          (case load_manifest_xml data of
             Inl e \<Rightarrow> parse_manifest_except env e
           | Inr xml \<Rightarrow>
               (case fromstring env (Some xml) of
                  Inl e \<Rightarrow> parse_manifest_except env e
                | Inr root \<Rightarrow> ([], Inr (Some root)))))
   \<and> parse_manifest_except env e =
        (case console env (ParseFailed e) of
           None \<Rightarrow> ([Print (ParseFailed e)], Inr None)
         | Some e2 \<Rightarrow> ([], Inl (Uncaught e2)))"
  by (auto simp: parse_manifest_def parse_manifest_except_def and_then_def ret_def
      console_print_def split: option.splits sum.splits)

theorem parse_manifest_decoder_or_plain_witness:
  "apkutils2 sample_env = None
   \<and> parse_manifest sample_env (Some camera_xml) = ([], Inr (Some camera_manifest))
   \<and> apkutils2 rejecting_env = Some rejecting_decoder
   \<and> console rejecting_env (ParseFailed ValueError) = None
   \<and> parse_manifest rejecting_env (Some camera_xml) = ([Print (ParseFailed ValueError)], Inr None)"
proof -
  have a: "apkutils2 sample_env = None" "apkutils2 rejecting_env = Some rejecting_decoder"
    by (simp_all add: rejecting_env_def sample_env_def)
  have f: "fromstring sample_env (Some camera_xml) = Inr camera_manifest"
    "rejecting_decoder (Some camera_xml) = Inl ValueError"
    by (simp_all add: sample_env_def sample_fromstring_def rejecting_decoder_def)
  have c: "console rejecting_env (ParseFailed ValueError) = None"
    by (simp add: rejecting_env_def sample_env_def sample_console_def interpolated_def
        exception_text_def str_def)
  show ?thesis
    using parse_manifest_decoder_or_plain [of sample_env "Some camera_xml"]
      parse_manifest_decoder_or_plain [of rejecting_env "Some camera_xml" ValueError] a f c
    by simp
qed

section \<open>Runs of the command\<close>

lemma sample_extracts:
  "extract_permissions (Some camera_manifest) = [str ''android.permission.CAMERA'']"
  "extract_permissions (Some internet_manifest) = [str ''android.permission.INTERNET'']"
  "extract_permissions (Some internet_camera_manifest) =
     [str ''android.permission.CAMERA'', str ''android.permission.INTERNET'']"
  "extract_permissions (Some empty_manifest) = []"
  "extract_permissions None = []"
  "extract_permissions (Some markup_manifest) = [str ''[/x]'']"
  "extract_permissions (Some markup_camera_manifest) =
     [str ''[/x]'', str ''android.permission.CAMERA'']"
  by (simp_all add: extract_permissions_def camera_manifest_def internet_manifest_def
      internet_camera_manifest_def empty_manifest_def markup_manifest_def
      markup_camera_manifest_def uses_permission_def permission_tags_def
      findall_def el_get_def strip_def sorted_list_of_set_sort_remdups android_name_def str_def
      py_isspace_def)

lemma sample_classify:
  "classify_permission (str ''android.permission.CAMERA'') =
     \<lparr>name = str ''android.permission.CAMERA'', category = str ''dangerous'',
      group_field = Some (str ''CAMERA''), sensitive = True\<rparr>"
  "classify_permission (str ''android.permission.INTERNET'') =
     \<lparr>name = str ''android.permission.INTERNET'', category = str ''normal'',
      group_field = Some (str ''NETWORK''), sensitive = False\<rparr>"
  "classify_permission (str ''[/x]'') =
     \<lparr>name = str ''[/x]'', category = str ''unknown'', group_field = None, sensitive = False\<rparr>"
  by (simp_all add: classify_permission_def PERMISSION_CATEGORIES_def)

text \<open>What the sample console does on the messages of the sample runs.\<close>

lemma sample_console_values:
  "sample_console (PermissionTable [classify_permission (str ''android.permission.CAMERA'')]
      ''Permissions (Base)'') = None"
  "sample_console (PermissionTable [classify_permission (str ''android.permission.INTERNET'')]
      ''Permissions (Base)'') = None"
  "sample_console (PermissionTable [] ''Permissions (Base)'') = None"
  "sample_console (PermissionTable [classify_permission (str ''[/x]'')]
      ''Permissions (Base)'') = Some MarkupError"
  "sample_console (ApkNotFound ''missing.apk'') = None"
  "sample_console (ApkNotFound ''a[/b].apk'') = Some MarkupError"
  "sample_console (ParseFailed ValueError) = None"
  "sample_console CompareHeader = None"
  "sample_console NewDangerousFound = None"
  "sample_console SourceMissing = None"
  "sample_console (AddedLine [str ''android.permission.CAMERA'']) = None"
  "sample_console (RemovedLine [str ''android.permission.CAMERA'']) = None"
  "sample_console (NewDangerousLine [str ''android.permission.CAMERA'']) = None"
  "sample_console (JsonSaved ''report.json'') = None"
  "sample_console (JsonWriteFailed (FileNotFoundError ''nodir/report.json'')) = None"
  "sample_console (JsonWriteFailed (FileNotFoundError ''nodir[/x]/report.json''))
     = Some MarkupError"
  unfolding sample_classify
  by (simp_all add: sample_console_def interpolated_def exception_text_def permission_texts_def
      str_def)

lemmas sample_console_records = sample_console_values [unfolded sample_classify]

lemmas sample_run_defs =
  analyze_def run_of_def and_then_def ret_def console_print_def stage_load_base_def
  load_base_def no_args_def sample_env_def sample_read_bytes_def sample_fromstring_def
  sample_json_write_def parse_manifest_def parse_manifest_except_def base_permissions_def
  sample_extracts sample_classify sample_console_records print_table_def wants_compare_def
  stage_load_compare_def load_manifest_from_apk_def compare_permissions_def
  diff_permissions_def dict_of_def diff_messages_def decide_exit_def finish_def
  export_if_output_def export_json_def camera_xml_def internet_xml_def
  internet_camera_xml_def empty_xml_def markup_xml_def markup_camera_xml_def Let_def

text \<open>
  C2. The claim asks that a failure to load or parse the comparison manifest propagates
  and that no diff is computed against an empty comparison set. The base path does so
  (\<open>if manifest1 is None: raise typer.Exit(code=1)\<close>); the comparison path has no such
  test. With a comparison archive that does not exist, the run prints the two error
  messages, diffs the base set against the empty list, reports every base permission as
  removed, writes that diff to the report and exits with status 0.
\<close>

theorem compare_failure_diffs_against_empty:
  "analyze sample_env
     (no_args\<lparr>manifest := Some ''camera.xml'', compare_apk := Some ''missing.apk'',
              output_path := Some ''report.json''\<rparr>) =
   \<lparr>effects =
      [Print (PermissionTable [classify_permission (str ''android.permission.CAMERA'')]
         ''Permissions (Base)''),
       Print (ApkNotFound ''missing.apk''),
       Print (ParseFailed ValueError),
       Print CompareHeader,
       Print (RemovedLine [str ''android.permission.CAMERA'']),
       WriteJson ''report.json''
         \<lparr>permissions = [classify_permission (str ''android.permission.CAMERA'')],
          diff = Some \<lparr>added = [], removed = [str ''android.permission.CAMERA''],
                       newDangerous = []\<rparr>\<rparr>,
       Print (JsonSaved ''report.json'')],
    outcome = Exit 0\<rparr>"
  by (simp add: sample_run_defs)


section \<open>How a run can end\<close>

lemma console_print_ends:
  "console_print env m = (es, Inl out) \<Longrightarrow> \<exists>e. out = Uncaught e"
  by (auto simp: console_print_def split: option.splits)

lemma diff_messages_ends:
  "diff_messages env d = (es, Inl out) \<Longrightarrow> \<exists>e. out = Uncaught e"
  by (auto simp: diff_messages_def and_then_def ret_def console_print_def
      split: if_splits option.splits)

lemma export_json_ends:
  "export_json env rep p = (es, Inl out) \<Longrightarrow> \<exists>e. out = Uncaught e"
  by (auto simp: export_json_def and_then_def console_print_def split: option.splits)

lemma export_if_output_ends:
  "export_if_output env a rep = (es, Inl out) \<Longrightarrow> \<exists>e. out = Uncaught e"
  by (auto simp: export_if_output_def ret_def dest: export_json_ends split: option.splits)

lemma outcome_run_of:
  "outcome (run_of m f) = (case snd m of Inl out \<Rightarrow> out | Inr x \<Rightarrow> outcome (f x))"
  by (cases m) (auto simp: run_of_def split: sum.splits)

lemma finish_not_exit3: "outcome (finish env a rep) \<noteq> Exit 3"
proof (cases "export_if_output env a rep")
  case (Pair es r)
  then show ?thesis
    by (cases r) (auto simp: finish_def outcome_run_of dest: export_if_output_ends)
qed


lemma no_added_no_policy_exit:
  assumes base: "stage_load_base env a = (e1, Inr manifest1)"
    and cmp: "stage_load_compare env a = (e3, Inr manifest2)"
    and d: "diff_permissions (base_permissions a manifest1) (compare_permissions manifest2) = Inr d"
    and none: "added d = []"
  shows "newDangerous d = [] \<and> outcome (analyze env a) \<noteq> Exit 3"
proof -
  let ?new = "compare_permissions manifest2"
  let ?rep = "\<lparr>permissions = base_permissions a manifest1, diff = None\<rparr>"
  have "newDangerous d =
      filter (\<lambda>n. \<exists>p. map_of (dict_of ?new) n = Some p \<and> category p = str ''dangerous'')
        (added d)"
    using d unfolding diff_permissions_eq by auto
  then have nd: "newDangerous d = []"
    by (simp only: none filter.simps)
  have dec: "\<And>rep. outcome (decide_exit env a rep d) \<noteq> Exit 3"
    by (simp add: decide_exit_def nd finish_not_exit3)
  have tail: "outcome (run_of (diff_messages env d)
        (\<lambda>_. decide_exit env a (?rep\<lparr>diff := Some d\<rparr>) d)) \<noteq> Exit 3"
  proof (cases "diff_messages env d")
    case (Pair es r)
    then show ?thesis
      by (cases r) (auto simp: outcome_run_of dec dest: diff_messages_ends)
  qed
  have rest: "outcome (if wants_compare a then
        run_of (stage_load_compare env a) (\<lambda>manifest2.
          case diff_permissions (base_permissions a manifest1) (compare_permissions manifest2) of
            Inl e \<Rightarrow> \<lparr>effects = [], outcome = Uncaught e\<rparr>
          | Inr d \<Rightarrow>
              run_of (diff_messages env d) (\<lambda>_. decide_exit env a (?rep\<lparr>diff := Some d\<rparr>) d))
        else finish env a ?rep) \<noteq> Exit 3"
    using tail by (simp add: outcome_run_of cmp d finish_not_exit3)
  have "outcome (analyze env a) \<noteq> Exit 3"
  proof (cases "print_table env (base_permissions a manifest1) ''Permissions (Base)''")
    case (Pair es r)
    show ?thesis
    proof (cases r)
      case (Inl out)
      with Pair obtain e where "out = Uncaught e"
        unfolding print_table_def by (auto dest: console_print_ends)
      with Pair Inl show ?thesis
        by (simp add: analyze_def outcome_run_of base Let_def)
    next
      case (Inr u)
      with Pair rest show ?thesis
        by (simp add: analyze_def outcome_run_of base Let_def)
    qed
  qed
  with nd show ?thesis by simp
qed

lemma diff_permissions_against_empty:
  "\<exists>d. diff_permissions old [] = Inr d \<and> added d = [] \<and> newDangerous d = []
       \<and> removed d = map fst (dict_of old)"
  by (simp add: diff_permissions_def dict_of_def)

text \<open>
  C7. Scenario 4: the base manifest declares \<open>android.permission.CAMERA\<close> and the
  comparison manifest declares nothing. The diff has nothing added, the camera
  permission removed and nothing newly dangerous, and the run exits with status 0
  although the fail-on-new-dangerous flag is set. Removals alone never trigger the
  policy exit: against an empty comparison set no base set yields an added or newly
  dangerous name, and no run whose diff has nothing added ends with exit status 3.
\<close>

theorem scenario_all_removed:
  "extract_permissions (Some camera_manifest) = [str ''android.permission.CAMERA'']
   \<and> extract_permissions (Some empty_manifest) = []
   \<and> diff_permissions (map classify_permission [str ''android.permission.CAMERA'']) []
       = Inr \<lparr>added = [], removed = [str ''android.permission.CAMERA''], newDangerous = []\<rparr>
   \<and> analyze sample_env
        (no_args\<lparr>manifest := Some ''camera.xml'', compare_manifest := Some ''empty.xml'',
                 fail_on_new_dangerous := True\<rparr>) =
       \<lparr>effects =
          [Print (PermissionTable [classify_permission (str ''android.permission.CAMERA'')]
             ''Permissions (Base)''),
           Print CompareHeader,
           Print (RemovedLine [str ''android.permission.CAMERA''])],
        outcome = Exit 0\<rparr>
   \<and> (\<forall>old. \<exists>d. diff_permissions old [] = Inr d \<and> added d = [] \<and> newDangerous d = [])
   \<and> (stage_load_base env a = (e1, Inr manifest1)
        \<and> stage_load_compare env a = (e3, Inr manifest2)
        \<and> diff_permissions (base_permissions a manifest1) (compare_permissions manifest2) = Inr d
        \<and> added d = []
       \<longrightarrow> newDangerous d = [] \<and> outcome (analyze env a) \<noteq> Exit 3)"
proof -
  have "\<forall>old. \<exists>d. diff_permissions old [] = Inr d \<and> added d = [] \<and> newDangerous d = []"
    using diff_permissions_against_empty by blast
  moreover have "diff_permissions (map classify_permission [str ''android.permission.CAMERA'']) []
       = Inr \<lparr>added = [], removed = [str ''android.permission.CAMERA''], newDangerous = []\<rparr>"
    by (simp add: sample_run_defs)
  moreover have "analyze sample_env
        (no_args\<lparr>manifest := Some ''camera.xml'', compare_manifest := Some ''empty.xml'',
                 fail_on_new_dangerous := True\<rparr>) =
       \<lparr>effects =
          [Print (PermissionTable [classify_permission (str ''android.permission.CAMERA'')]
             ''Permissions (Base)''),
           Print CompareHeader,
           Print (RemovedLine [str ''android.permission.CAMERA''])],
        outcome = Exit 0\<rparr>"
    by (simp add: sample_run_defs)
  moreover have "stage_load_base env a = (e1, Inr manifest1)
        \<and> stage_load_compare env a = (e3, Inr manifest2)
        \<and> diff_permissions (base_permissions a manifest1) (compare_permissions manifest2) = Inr d
        \<and> added d = []
       \<longrightarrow> newDangerous d = [] \<and> outcome (analyze env a) \<noteq> Exit 3"
    using no_added_no_policy_exit [of env a e1 manifest1 e3 manifest2 d] by blast
  ultimately show ?thesis
    using sample_extracts(1,4) by blast
qed

theorem scenario_all_removed_witness:
  "stage_load_base sample_env
      (no_args\<lparr>manifest := Some ''camera.xml'', compare_manifest := Some ''empty.xml'',
               fail_on_new_dangerous := True\<rparr>) = ([], Inr camera_manifest)
   \<and> stage_load_compare sample_env
      (no_args\<lparr>manifest := Some ''camera.xml'', compare_manifest := Some ''empty.xml'',
               fail_on_new_dangerous := True\<rparr>) = ([], Inr (Some empty_manifest))
   \<and> diff_permissions
        (base_permissions
           (no_args\<lparr>manifest := Some ''camera.xml'', compare_manifest := Some ''empty.xml'',
                    fail_on_new_dangerous := True\<rparr>) camera_manifest)
        (compare_permissions (Some empty_manifest))
       = Inr \<lparr>added = [], removed = [str ''android.permission.CAMERA''], newDangerous = []\<rparr>
   \<and> outcome (analyze sample_env
      (no_args\<lparr>manifest := Some ''camera.xml'', compare_manifest := Some ''empty.xml'',
               fail_on_new_dangerous := True\<rparr>)) \<noteq> Exit 3
   \<and> outcome (analyze sample_env
      (no_args\<lparr>manifest := Some ''camera.xml'', compare_manifest := Some ''empty.xml'',
               fail_on_new_dangerous := True\<rparr>)) = Exit 0"
proof -
  let ?a = "no_args\<lparr>manifest := Some ''camera.xml'', compare_manifest := Some ''empty.xml'',
               fail_on_new_dangerous := True\<rparr>"
  let ?d = "\<lparr>added = [], removed = [str ''android.permission.CAMERA''], newDangerous = []\<rparr>"
  have b: "stage_load_base sample_env ?a = ([], Inr camera_manifest)"
    by (simp add: sample_run_defs)
  have c: "stage_load_compare sample_env ?a = ([], Inr (Some empty_manifest))"
    by (simp add: sample_run_defs)
  have d: "diff_permissions (base_permissions ?a camera_manifest)
      (compare_permissions (Some empty_manifest)) = Inr ?d"
    by (simp add: sample_run_defs)
  have n: "added ?d = []" by simp
  from scenario_all_removed [of sample_env ?a "[]" camera_manifest "[]" "Some empty_manifest" ?d]
    b c d n
  have 1: "outcome (analyze sample_env ?a) \<noteq> Exit 3"
    by blast
  from scenario_all_removed
  have "analyze sample_env ?a =
       \<lparr>effects =
          [Print (PermissionTable [classify_permission (str ''android.permission.CAMERA'')]
             ''Permissions (Base)''),
           Print CompareHeader,
           Print (RemovedLine [str ''android.permission.CAMERA''])],
        outcome = Exit 0\<rparr>"
    by blast
  then have 2: "outcome (analyze sample_env ?a) = Exit 0" by simp
  from b c d 1 2 show ?thesis by blast
qed


section \<open>The policy exit\<close>

text \<open>What lines 220 to 224 do when each print succeeds.\<close>

lemma decide_exit_policy:
  assumes "fail_on_new_dangerous a" "newDangerous d \<noteq> []"
    "console env NewDangerousFound = None" "export_if_output env a rep = (es, Inr ())"
  shows "decide_exit env a rep d = \<lparr>effects = Print NewDangerousFound # es, outcome = Exit 3\<rparr>"
  using assms by (simp add: decide_exit_def run_of_def console_print_def)

text \<open>
  C6. The claim asks for exit status 3, after the JSON artifact, whenever the policy is
  active and \<open>newDangerous\<close> is not empty; the option's help text says the same. The
  code does so only while every print succeeds. In the first run the base manifest
  declares a permission named \<open>[/x]\<close>: the diff has \<open>android.permission.CAMERA\<close> added
  and newly dangerous, the policy is active and a destination is given, but the print
  of the base table raises \<open>MarkupError\<close>, so the run ends with that exception
  uncaught, nothing written. In the second run the manifests are plain and the
  destination is in a missing directory whose name holds \<open>[/x]\<close>: the run gets as far as
  \<open>export_json\<close>, whose handler raises \<open>MarkupError\<close> when it prints the failure, and
  the run ends with that exception instead of exit status 3.
\<close>

theorem policy_exit_lost_to_markup_error:
  "diff_permissions
      (base_permissions
         (no_args\<lparr>manifest := Some ''markup.xml'', compare_manifest := Some ''markup_camera.xml'',
                  output_path := Some ''report.json'', fail_on_new_dangerous := True\<rparr>)
         markup_manifest)
      (compare_permissions (Some markup_camera_manifest))
     = Inr \<lparr>added = [str ''android.permission.CAMERA''], removed = [],
            newDangerous = [str ''android.permission.CAMERA'']\<rparr>
   \<and> analyze sample_env
        (no_args\<lparr>manifest := Some ''markup.xml'', compare_manifest := Some ''markup_camera.xml'',
                 output_path := Some ''report.json'', fail_on_new_dangerous := True\<rparr>)
     = \<lparr>effects = [], outcome = Uncaught MarkupError\<rparr>
   \<and> analyze sample_env
        (no_args\<lparr>manifest := Some ''internet.xml'', compare_manifest := Some ''both.xml'',
                 output_path := Some ''nodir[/x]/report.json'', fail_on_new_dangerous := True\<rparr>)
     = \<lparr>effects =
          [Print (PermissionTable [classify_permission (str ''android.permission.INTERNET'')]
             ''Permissions (Base)''),
           Print CompareHeader,
           Print (AddedLine [str ''android.permission.CAMERA'']),
           Print (NewDangerousLine [str ''android.permission.CAMERA'']),
           Print NewDangerousFound],
        outcome = Uncaught MarkupError\<rparr>"
  by (simp add: sample_run_defs)

section \<open>The JSON artifact\<close>

text \<open>
  C8. The claim asks that a failed write of the JSON artifact is reported by a message
  and leaves the exit status alone; \<open>export_json\<close> catches the exception and prints it
  for that purpose. It does so for the destination \<open>nodir/report.json\<close>: one message,
  exit status 0. For the destination \<open>nodir[/x]/report.json\<close> the text of the exception
  holds the path, the handler's print raises \<open>MarkupError\<close>, no message is printed and
  the run ends with that exception uncaught instead of exit status 0.
\<close>

theorem json_write_failure_raises_markup_error:
  "json_write sample_env ''nodir/report.json''
      \<lparr>permissions = [classify_permission (str ''android.permission.CAMERA'')], diff = None\<rparr>
     = Some (FileNotFoundError ''nodir/report.json'')
   \<and> analyze sample_env
        (no_args\<lparr>manifest := Some ''camera.xml'', output_path := Some ''nodir/report.json''\<rparr>)
     = \<lparr>effects =
          [Print (PermissionTable [classify_permission (str ''android.permission.CAMERA'')]
             ''Permissions (Base)''),
           Print (JsonWriteFailed (FileNotFoundError ''nodir/report.json''))],
        outcome = Exit 0\<rparr>
   \<and> json_write sample_env ''nodir[/x]/report.json''
      \<lparr>permissions = [classify_permission (str ''android.permission.CAMERA'')], diff = None\<rparr>
     = Some (FileNotFoundError ''nodir[/x]/report.json'')
   \<and> analyze sample_env
        (no_args\<lparr>manifest := Some ''camera.xml'',
                 output_path := Some ''nodir[/x]/report.json''\<rparr>)
     = \<lparr>effects =
          [Print (PermissionTable [classify_permission (str ''android.permission.CAMERA'')]
             ''Permissions (Base)'')],
        outcome = Uncaught MarkupError\<rparr>"
  by (simp add: sample_run_defs)

section \<open>The category filter and the diff\<close>

text \<open>
  The filter is applied to the base list only, so a permission declared in both
  manifests whose category the filter excludes is added, and newly dangerous when its
  category is \<open>dangerous\<close>.
\<close>

lemma excluded_permission_is_added:
  assumes flt: "only a = Some cats" "cats \<noteq> []"
    and both: "n \<in> set (extract_permissions (Some manifest1))"
      "n \<in> set (extract_permissions manifest2)"
    and excl: "category (classify_permission n) \<notin> set cats"
  shows "\<exists>d. diff_permissions (base_permissions a manifest1) (compare_permissions manifest2) = Inr d
           \<and> n \<in> set (added d)
           \<and> (category (classify_permission n) = str ''dangerous'' \<longrightarrow> n \<in> set (newDangerous d))"
proof -
  let ?old = "base_permissions a manifest1"
  let ?new = "compare_permissions manifest2"
  let ?A = "filter (\<lambda>n. n \<notin> name ` set ?old) (map fst (dict_of ?new))"
  let ?D = "filter (\<lambda>n. \<exists>p. map_of (dict_of ?new) n = Some p \<and> category p = str ''dangerous'') ?A"
  let ?d = "\<lparr>added = ?A, removed = filter (\<lambda>n. n \<notin> name ` set ?new) (map fst (dict_of ?old)),
              newDangerous = ?D\<rparr>"
  have old_eq: "?old = filter (\<lambda>p. category p \<in> set cats)
             (map classify_permission (extract_permissions (Some manifest1)))"
    using flt by (simp add: base_permissions_def)
  have new_eq: "?new = map classify_permission (extract_permissions manifest2)"
    by (simp add: compare_permissions_def)
  have d: "diff_permissions ?old ?new = Inr ?d"
    by (rule diff_permissions_eq)
  have not_old: "n \<notin> name ` set ?old"
  proof
    assume "n \<in> name ` set ?old"
    then obtain p where p: "p \<in> set ?old" "n = name p" by blast
    from p(1) obtain m where m: "p = classify_permission m" "category p \<in> set cats"
      unfolding old_eq by auto
    from p(2) m(1) have "m = n" by (simp add: name_classify_permission)
    with m excl show False by simp
  qed
  have in_new: "classify_permission n \<in> set ?new"
    unfolding new_eq using both(2) by simp
  then have "n \<in> name ` set ?new"
    using name_classify_permission [of n] by (metis imageI)
  then have key: "n \<in> fst ` set (dict_of ?new)"
    by (simp only: dict_of_keys_set)
  have inA: "n \<in> set ?A"
    using key not_old by simp
  have dang: "category (classify_permission n) = str ''dangerous'' \<Longrightarrow> n \<in> set ?D"
  proof -
    assume c: "category (classify_permission n) = str ''dangerous''"
    from key obtain q where q: "map_of (dict_of ?new) n = Some q"
      by (cases "map_of (dict_of ?new) n") (simp_all add: map_of_eq_None_iff)
    from dict_of_lookup [OF q] have q2: "q \<in> set ?new" "name q = n" by simp_all
    from q2(1) obtain m where m: "q = classify_permission m"
      unfolding new_eq by auto
    with q2(2) have "m = n" by (simp add: name_classify_permission)
    with m c have "category q = str ''dangerous''" by simp
    with q inA show "n \<in> set ?D" by simp
  qed
  show ?thesis
  proof (intro conjI exI [of _ ?d])
    show "diff_permissions ?old ?new = Inr ?d" by (rule d)
    show "n \<in> set (added ?d)" using inA by (simp only: diff_result.simps)
    show "category (classify_permission n) = str ''dangerous'' \<longrightarrow> n \<in> set (newDangerous ?d)"
      using dang by (simp only: diff_result.simps) blast
  qed
qed

text \<open>
  C9. The claim is that a permission declared in both manifests, of a category that the
  filter excludes, is in \<open>added\<close> and, when dangerous, in \<open>newDangerous\<close>, which
  triggers exit status 3 under the policy. Both manifests of this run declare \<open>[/x]\<close>
  and \<open>android.permission.CAMERA\<close>, the filter keeps the category \<open>unknown\<close> only and
  the policy is active. The diff is as claimed, the camera permission added and newly
  dangerous; but the base table, which holds \<open>[/x]\<close>, cannot be printed, and the run
  ends with \<open>MarkupError\<close> uncaught instead of exit status 3.
\<close>

theorem filtered_policy_exit_lost_to_markup_error:
  "str ''android.permission.CAMERA'' \<in> set (extract_permissions (Some markup_camera_manifest))
   \<and> category (classify_permission (str ''android.permission.CAMERA'')) = str ''dangerous''
   \<and> category (classify_permission (str ''android.permission.CAMERA'')) \<notin> set [str ''unknown'']
   \<and> diff_permissions
        (base_permissions
           (no_args\<lparr>manifest := Some ''markup_camera.xml'',
                    compare_manifest := Some ''markup_camera.xml'',
                    only := Some [str ''unknown''], fail_on_new_dangerous := True\<rparr>)
           markup_camera_manifest)
        (compare_permissions (Some markup_camera_manifest))
       = Inr \<lparr>added = [str ''android.permission.CAMERA''], removed = [],
              newDangerous = [str ''android.permission.CAMERA'']\<rparr>
   \<and> analyze sample_env
        (no_args\<lparr>manifest := Some ''markup_camera.xml'',
                 compare_manifest := Some ''markup_camera.xml'',
                 only := Some [str ''unknown''], fail_on_new_dangerous := True\<rparr>)
       = \<lparr>effects = [], outcome = Uncaught MarkupError\<rparr>"
  by (simp add: sample_run_defs)


section \<open>Missing input files\<close>

text \<open>
  C10. When the base input is a manifest path whose read raises, the run ends with that
  exception uncaught and has printed nothing; when the comparison input is such a path
  and the run has got as far as reading it, the run ends with the exception uncaught
  after the base table. The existence test and its message belong to the archive loader
  only: for a path that does not exist it prints the not-found message and returns
  \<open>None\<close>, and a run whose base archive is missing then ends with exit status 1 once
  the parser has rejected the missing bytes; when the print of the not-found message
  itself raises, the run ends with that exception uncaught.
\<close>

theorem manifest_path_read_uncaught:
  "(apk a = None \<and> manifest a = Some m \<and> read_bytes env m = Inl e \<longrightarrow>
      analyze env a = \<lparr>effects = [], outcome = Uncaught e\<rparr>)
   \<and> (stage_load_base env a = (e1, Inr manifest1)
        \<and> print_table env (base_permissions a manifest1) ''Permissions (Base)'' = (e2, Inr ())
        \<and> compare_apk a = None \<and> compare_manifest a = Some m \<and> read_bytes env m = Inl e \<longrightarrow>
      analyze env a = \<lparr>effects = e1 @ e2, outcome = Uncaught e\<rparr>)
   \<and> (\<not> path_exists env p \<longrightarrow>
        load_manifest_from_apk env p =
          (case console env (ApkNotFound p) of
             None \<Rightarrow> ([Print (ApkNotFound p)], Inr None)
           | Some e4 \<Rightarrow> ([], Inl (Uncaught e4))))
   \<and> (apk a = Some p \<and> \<not> path_exists env p \<and> console env (ApkNotFound p) = None
        \<and> parse_manifest env None = (e3, Inr None) \<longrightarrow>
      analyze env a = \<lparr>effects = Print (ApkNotFound p) # e3, outcome = Exit 1\<rparr>)
   \<and> (apk a = Some p \<and> \<not> path_exists env p \<and> console env (ApkNotFound p) = Some e5 \<longrightarrow>
      analyze env a = \<lparr>effects = [], outcome = Uncaught e5\<rparr>)"
proof (intro conjI impI)
  assume "apk a = None \<and> manifest a = Some m \<and> read_bytes env m = Inl e"
  then show "analyze env a = \<lparr>effects = [], outcome = Uncaught e\<rparr>"
    by (simp add: analyze_def stage_load_base_def load_base_def and_then_def run_of_def)
next
  assume "stage_load_base env a = (e1, Inr manifest1)
        \<and> print_table env (base_permissions a manifest1) ''Permissions (Base)'' = (e2, Inr ())
        \<and> compare_apk a = None \<and> compare_manifest a = Some m \<and> read_bytes env m = Inl e"
  then show "analyze env a = \<lparr>effects = e1 @ e2, outcome = Uncaught e\<rparr>"
    by (simp add: analyze_def stage_load_compare_def wants_compare_def Let_def and_then_def
        run_of_def)
next
  assume "\<not> path_exists env p"
  then show "load_manifest_from_apk env p =
          (case console env (ApkNotFound p) of
             None \<Rightarrow> ([Print (ApkNotFound p)], Inr None)
           | Some e4 \<Rightarrow> ([], Inl (Uncaught e4)))"
    by (simp add: load_manifest_from_apk_def and_then_def ret_def console_print_def
        split: option.splits)
next
  assume h: "apk a = Some p \<and> \<not> path_exists env p \<and> console env (ApkNotFound p) = None
        \<and> parse_manifest env None = (e3, Inr None)"
  then have l: "load_base env a = ([Print (ApkNotFound p)], Inr None)"
    by (simp add: load_base_def load_manifest_from_apk_def and_then_def ret_def
        console_print_def)
  have "stage_load_base env a = (Print (ApkNotFound p) # e3, Inl (Exit 1))"
    using h by (simp add: stage_load_base_def l and_then_def)
  then show "analyze env a = \<lparr>effects = Print (ApkNotFound p) # e3, outcome = Exit 1\<rparr>"
    by (simp add: analyze_def run_of_def)
next
  assume "apk a = Some p \<and> \<not> path_exists env p \<and> console env (ApkNotFound p) = Some e5"
  then show "analyze env a = \<lparr>effects = [], outcome = Uncaught e5\<rparr>"
    by (simp add: analyze_def run_of_def stage_load_base_def load_base_def
        load_manifest_from_apk_def and_then_def console_print_def)
qed

theorem manifest_path_read_uncaught_witness:
  "read_bytes sample_env ''missing.xml'' = Inl (FileNotFoundError ''missing.xml'')
   \<and> analyze sample_env (no_args\<lparr>manifest := Some ''missing.xml''\<rparr>)
       = \<lparr>effects = [], outcome = Uncaught (FileNotFoundError ''missing.xml'')\<rparr>
   \<and> analyze sample_env
        (no_args\<lparr>manifest := Some ''camera.xml'', compare_manifest := Some ''missing.xml''\<rparr>)
       = \<lparr>effects =
            [Print (PermissionTable [classify_permission (str ''android.permission.CAMERA'')]
               ''Permissions (Base)'')],
          outcome = Uncaught (FileNotFoundError ''missing.xml'')\<rparr>
   \<and> \<not> path_exists sample_env ''missing.apk''
   \<and> load_manifest_from_apk sample_env ''missing.apk''
       = ([Print (ApkNotFound ''missing.apk'')], Inr None)
   \<and> analyze sample_env (no_args\<lparr>apk := Some ''missing.apk''\<rparr>)
       = \<lparr>effects = [Print (ApkNotFound ''missing.apk''), Print (ParseFailed ValueError)],
          outcome = Exit 1\<rparr>
   \<and> console sample_env (ApkNotFound ''a[/b].apk'') = Some MarkupError
   \<and> analyze sample_env (no_args\<lparr>apk := Some ''a[/b].apk''\<rparr>)
       = \<lparr>effects = [], outcome = Uncaught MarkupError\<rparr>"
proof -
  let ?a1 = "no_args\<lparr>manifest := Some ''missing.xml''\<rparr>"
  let ?a2 = "no_args\<lparr>manifest := Some ''camera.xml'', compare_manifest := Some ''missing.xml''\<rparr>"
  let ?a3 = "no_args\<lparr>apk := Some ''missing.apk''\<rparr>"
  let ?t = "Print (PermissionTable [classify_permission (str ''android.permission.CAMERA'')]
               ''Permissions (Base)'')"
  have r: "read_bytes sample_env ''missing.xml'' = Inl (FileNotFoundError ''missing.xml'')"
    by (simp add: sample_env_def sample_read_bytes_def)
  have a1: "apk ?a1 = None" "manifest ?a1 = Some ''missing.xml''"
    by (simp_all add: no_args_def)
  have a2: "stage_load_base sample_env ?a2 = ([], Inr camera_manifest)"
    "print_table sample_env (base_permissions ?a2 camera_manifest) ''Permissions (Base)''
       = ([?t], Inr ())"
    "compare_apk ?a2 = None" "compare_manifest ?a2 = Some ''missing.xml''"
    by (simp_all add: sample_run_defs)
  have a3: "apk ?a3 = Some ''missing.apk''" "\<not> path_exists sample_env ''missing.apk''"
    "console sample_env (ApkNotFound ''missing.apk'') = None"
    "parse_manifest sample_env None = ([Print (ParseFailed ValueError)], Inr None)"
    by (simp_all add: sample_run_defs)
  have 1: "analyze sample_env ?a1 =
      \<lparr>effects = [], outcome = Uncaught (FileNotFoundError ''missing.xml'')\<rparr>"
    using manifest_path_read_uncaught
      [of ?a1 "''missing.xml''" sample_env "FileNotFoundError ''missing.xml''"]
      a1 r by blast
  have 2: "analyze sample_env ?a2 =
      \<lparr>effects = [] @ [?t], outcome = Uncaught (FileNotFoundError ''missing.xml'')\<rparr>"
    using manifest_path_read_uncaught
      [of ?a2 "''missing.xml''" sample_env "FileNotFoundError ''missing.xml''" "[]"
        camera_manifest "[?t]"]
      a2 r by blast
  have 3: "load_manifest_from_apk sample_env ''missing.apk''
       = ([Print (ApkNotFound ''missing.apk'')], Inr None)"
    using manifest_path_read_uncaught [of _ _ sample_env _ _ _ _ "''missing.apk''"] a3(2,3)
    by simp
  have 4: "analyze sample_env ?a3 =
      \<lparr>effects = [Print (ApkNotFound ''missing.apk''), Print (ParseFailed ValueError)],
       outcome = Exit 1\<rparr>"
    using manifest_path_read_uncaught
      [of ?a3 _ sample_env _ _ _ _ "''missing.apk''" "[Print (ParseFailed ValueError)]"]
      a3 by blast
  let ?a5 = "no_args\<lparr>apk := Some ''a[/b].apk''\<rparr>"
  have a5: "apk ?a5 = Some ''a[/b].apk''" "\<not> path_exists sample_env ''a[/b].apk''"
    "console sample_env (ApkNotFound ''a[/b].apk'') = Some MarkupError"
    by (simp_all add: sample_run_defs)
  have 5: "analyze sample_env ?a5 = \<lparr>effects = [], outcome = Uncaught MarkupError\<rparr>"
    using manifest_path_read_uncaught
      [of ?a5 _ sample_env _ _ _ _ "''a[/b].apk''" _ MarkupError]
      a5 by blast
  show ?thesis
    using r 1 2 3 4 5 a3(2) a5(3) by simp
qed

end
